theory Spec2Isabelle
  imports Main "HOL-Library.Sublist"
begin

section \<open>The command line classifier\<close>

text \<open>
  The dispatcher \<^verbatim>\<open>main\<close> of \<^verbatim>\<open>lib/Naked/app.py\<close> builds one object
  \<^verbatim>\<open>c = Naked.commandline.Command(sys.argv[0], sys.argv[1:])\<close> and then only reads
  \<^verbatim>\<open>c.cmd\<close>, \<^verbatim>\<open>c.cmd2\<close> and calls \<^verbatim>\<open>c.command_suite_validates()\<close>,
  \<^verbatim>\<open>c.help()\<close>, \<^verbatim>\<open>c.usage()\<close>, \<^verbatim>\<open>c.version()\<close>. The module
  \<^verbatim>\<open>Naked.commandline\<close> itself is not among the source files, so the object and its
  queries are modelled from the specification (sections 3, 4.1 and 6).
\<close>

text \<open>
  Modelled from the spec: the entity ParsedCommandLine of section 3 (the class
  \<^verbatim>\<open>Command\<close> of the missing module \<^verbatim>\<open>Naked.commandline\<close>): the program name, the raw
  arguments in their order, the primary and the secondary command.
\<close>

record command =
  app :: string
  argv :: "string list"
  cmd :: string
  cmd2 :: string

text \<open>
  Modelled from the spec: "An option token is any element of rawArgs starting with -".
\<close>

definition is_option_token :: "string \<Rightarrow> bool" where
  "is_option_token t = prefix ''-'' t"

text \<open>
  Modelled from the spec: the left to right scan of the construction contract of
  section 4.1. The first element that does not start with \<^verbatim>\<open>-\<close> is the primary command
  (step 2, the glossary and the first testable property); the element right after it
  is the secondary command when it is not an option token, and collecting stops when an
  option token is reached there (steps 3 and 4, and the policy section 9 recommends).
  Both are empty when there is no such element (step 1 for the empty vector). The
  data model's side remark that the primary command is empty whenever the first token
  is an option disagrees with step 2 on vectors such as \<^verbatim>\<open>-x foo\<close>; the scan follows
  step 2 there, and no theorem below evaluates it on such a vector.
\<close>

fun scan_commands :: "string list \<Rightarrow> string \<times> string" where
  "scan_commands [] = ('''', '''')"
| "scan_commands (t # ts) =
     (if is_option_token t then scan_commands ts
      else (t, case ts of
                 [] \<Rightarrow> ''''
               | u # _ \<Rightarrow> if is_option_token u then '''' else u))"

text \<open>
  Modelled from the spec: the constructor \<^verbatim>\<open>Command(programName, rawArgs)\<close>; the two
  command fields are computed once, here, and the raw arguments are kept unchanged.
\<close>

definition Command :: "string \<Rightarrow> string list \<Rightarrow> command" where
  "Command app_path args =
     \<lparr>app = app_path, argv = args,
      cmd = fst (scan_commands args), cmd2 = snd (scan_commands args)\<rparr>"

text \<open>
  Modelled from the spec: \<^verbatim>\<open>validatesCommandSuite()\<close>
  (\<^verbatim>\<open>c.command_suite_validates()\<close> in the dispatcher), "returns true iff primaryCommand
  is non-empty".
\<close>

definition command_suite_validates :: "command \<Rightarrow> bool" where
  "command_suite_validates c = (cmd c \<noteq> '''')"

text \<open>
  Modelled from the spec: the position of the first (leftmost) occurrence of a token in
  the raw arguments, the "locates" of \<^verbatim>\<open>optionValue\<close> and \<^verbatim>\<open>positionalArgument\<close>;
  the spec recommends first-match, leftmost.
\<close>

fun first_index :: "string list \<Rightarrow> string \<Rightarrow> nat option" where
  "first_index [] t = None"
| "first_index (x # xs) t =
     (if x = t then Some 0
      else case first_index xs t of None \<Rightarrow> None | Some i \<Rightarrow> Some (Suc i))"

text \<open>
  Modelled from the spec: \<^verbatim>\<open>hasOption(flag, requiresArgument)\<close> (\<^verbatim>\<open>c.option\<close> in
  the header of \<^verbatim>\<open>app.py\<close>): the flag occurs in the raw arguments, compared by
  equality of strings; with \<^verbatim>\<open>requiresArgument\<close> the matched occurrence must not be
  the last element.
\<close>

definition hasOption :: "command \<Rightarrow> string \<Rightarrow> bool \<Rightarrow> bool" where
  "hasOption c flag requiresArgument =
     (case first_index (argv c) flag of
        None \<Rightarrow> False
      | Some i \<Rightarrow> if requiresArgument then Suc i < length (argv c) else True)"

text \<open>
  Modelled from the spec: \<^verbatim>\<open>positionalArgument(afterToken)\<close> (\<^verbatim>\<open>c.arg\<close> in the
  header of \<^verbatim>\<open>app.py\<close>): the element right after the first occurrence of the token,
  absent (\<open>None\<close>) when the token is not found or nothing follows it.
\<close>

definition positionalArgument :: "command \<Rightarrow> string \<Rightarrow> string option" where
  "positionalArgument c afterToken =
     (case first_index (argv c) afterToken of
        None \<Rightarrow> None
      | Some i \<Rightarrow> if Suc i < length (argv c) then Some (argv c ! Suc i) else None)"

text \<open>
  Modelled from the spec: \<^verbatim>\<open>optionValue(flag)\<close>, built on \<^verbatim>\<open>positionalArgument\<close>
  ("This is the general mechanism optionValue is built on").
\<close>

definition optionValue :: "command \<Rightarrow> string \<Rightarrow> string option" where
  "optionValue c flag = positionalArgument c flag"

text \<open>
  Modelled from the spec: \<^verbatim>\<open>isHelpRequested()\<close>, \<^verbatim>\<open>isUsageRequested()\<close> and
  \<^verbatim>\<open>isVersionRequested()\<close> (\<^verbatim>\<open>c.help()\<close>, \<^verbatim>\<open>c.usage()\<close>, \<^verbatim>\<open>c.version()\<close> in the
  dispatcher), with the literals of section 6: the flags \<^verbatim>\<open>-h\<close>/\<^verbatim>\<open>--help\<close>,
  \<^verbatim>\<open>--usage\<close>, \<^verbatim>\<open>--version\<close> anywhere in the raw arguments, or the reserved primary
  command.
\<close>

definition isHelpRequested :: "command \<Rightarrow> bool" where
  "isHelpRequested c =
     (''-h'' \<in> set (argv c) \<or> ''--help'' \<in> set (argv c) \<or> cmd c = ''help'')"

definition isUsageRequested :: "command \<Rightarrow> bool" where
  "isUsageRequested c = (''--usage'' \<in> set (argv c) \<or> cmd c = ''usage'')"

definition isVersionRequested :: "command \<Rightarrow> bool" where
  "isVersionRequested c = (''--version'' \<in> set (argv c) \<or> cmd c = ''version'')"

section \<open>The dispatcher\<close>

text \<open>
  \<^verbatim>\<open>main\<close> of \<^verbatim>\<open>lib/Naked/app.py\<close>. What the process does is recorded as the list of
  its observable steps, in order, and its exit status. The bodies of the five command
  handlers and of the three printers call modules outside the source files
  (\<^verbatim>\<open>XList\<close>, \<^verbatim>\<open>HTTP\<close>, \<^verbatim>\<open>yaml\<close>, \<^verbatim>\<open>Usage\<close>, \<^verbatim>\<open>Help\<close>, \<^verbatim>\<open>Version\<close>); each is one
  step here, taken to return normally. \<^verbatim>\<open>sys.exit(1)\<close> ends the run with status 1; a
  run that reaches the end of \<^verbatim>\<open>main\<close> ends with status 0.
\<close>

datatype handler = Test | Dl | Loc | Yaml | Bump

datatype event =
    PrintUsage
  | PrintHelp
  | PrintVersion
  | Handler handler
  | Print string

record outcome =
  events :: "event list"
  exit_status :: int

definition failure_message :: string where
  "failure_message = ''Could not complete the command that you entered.  Please try again.''"

text \<open>
  The two arguments are \<^verbatim>\<open>sys.argv[0]\<close> and \<^verbatim>\<open>sys.argv[1:]\<close>. The branch of
  \<^verbatim>\<open>bump\<close> compares \<^verbatim>\<open>c.cmd2\<close> with \<^verbatim>\<open>patch\<close>, \<^verbatim>\<open>minor\<close> and \<^verbatim>\<open>major\<close> and does
  nothing (\<^verbatim>\<open>pass\<close>) in each case and in the remaining one.
\<close>

definition main :: "string \<Rightarrow> string list \<Rightarrow> outcome" where
  "main argv0 args =
     (let c = Command argv0 args in
      if \<not> command_suite_validates c then
        \<lparr>events = [PrintUsage], exit_status = 1\<rparr>
      else if cmd c = ''test'' then \<lparr>events = [Handler Test], exit_status = 0\<rparr>
      else if cmd c = ''dl'' then \<lparr>events = [Handler Dl], exit_status = 0\<rparr>
      else if cmd c = ''loc'' then \<lparr>events = [Handler Loc], exit_status = 0\<rparr>
      else if cmd c = ''yaml'' then \<lparr>events = [Handler Yaml], exit_status = 0\<rparr>
      else if cmd c = ''bump'' then
        (if cmd2 c = ''patch'' then \<lparr>events = [Handler Bump], exit_status = 0\<rparr>
         else if cmd2 c = ''minor'' then \<lparr>events = [Handler Bump], exit_status = 0\<rparr>
         else if cmd2 c = ''major'' then \<lparr>events = [Handler Bump], exit_status = 0\<rparr>
         else \<lparr>events = [Handler Bump], exit_status = 0\<rparr>)
      else if isHelpRequested c then \<lparr>events = [PrintHelp], exit_status = 0\<rparr>
      else if isUsageRequested c then \<lparr>events = [PrintUsage], exit_status = 0\<rparr>
      else if isVersionRequested c then \<lparr>events = [PrintVersion], exit_status = 0\<rparr>
      else \<lparr>events = [Print failure_message], exit_status = 1\<rparr>)"

definition recognized_commands :: "string list" where
  "recognized_commands = [''test'', ''dl'', ''loc'', ''yaml'', ''bump'']"

definition is_handler_event :: "event \<Rightarrow> bool" where
  "is_handler_event e = (case e of Handler _ \<Rightarrow> True | _ \<Rightarrow> False)"

section \<open>The platform under the helpers of the toolshed\<close>

text \<open>
  \<^verbatim>\<open>lib/Naked/toolshed/system.py\<close> is a layer over \<^verbatim>\<open>os\<close>, \<^verbatim>\<open>os.path\<close> and
  \<^verbatim>\<open>sys\<close>. What the operating system answers is a parameter of the model: the working
  directory (\<^verbatim>\<open>os.getcwd()\<close>), the result of \<^verbatim>\<open>os.stat\<close> on a path (the type of the
  file it reaches, or \<open>None\<close> when the call raises \<^verbatim>\<open>OSError\<close>) and the result of
  \<^verbatim>\<open>os.listdir\<close>. The process is taken to have a working directory.
\<close>

datatype exn = OSError | SystemExit int

datatype file_type = Regular | Directory | Other

record os_env =
  getcwd :: string
  os_stat :: "string \<Rightarrow> file_type option"
  listdir :: "string \<Rightarrow> exn + string list"

text \<open>
  The functions of the standard library's \<^verbatim>\<open>os.path\<close> that the helpers call, in their
  POSIX form. \<^verbatim>\<open>exists\<close>, \<^verbatim>\<open>isfile\<close> and \<^verbatim>\<open>isdir\<close> call \<^verbatim>\<open>os.stat\<close> and answer
  \<^verbatim>\<open>False\<close> when it raises; \<^verbatim>\<open>isfile\<close> and \<^verbatim>\<open>isdir\<close> then test the file type.
\<close>

definition path_exists :: "os_env \<Rightarrow> string \<Rightarrow> bool" where
  "path_exists env path = (case os_stat env path of None \<Rightarrow> False | Some _ \<Rightarrow> True)"

definition path_isfile :: "os_env \<Rightarrow> string \<Rightarrow> bool" where
  "path_isfile env path =
     (case os_stat env path of None \<Rightarrow> False | Some st \<Rightarrow> st = Regular)"

definition path_isdir :: "os_env \<Rightarrow> string \<Rightarrow> bool" where
  "path_isdir env path =
     (case os_stat env path of None \<Rightarrow> False | Some st \<Rightarrow> st = Directory)"

text \<open>
  \<^verbatim>\<open>os.path.join(a, b)\<close> with two components: an absolute \<^verbatim>\<open>b\<close> replaces \<^verbatim>\<open>a\<close>;
  otherwise \<^verbatim>\<open>b\<close> is appended, after a separator unless \<^verbatim>\<open>a\<close> is empty or ends with
  one.
\<close>

definition path_join :: "string \<Rightarrow> string \<Rightarrow> string" where
  "path_join a b =
     (if prefix ''/'' b then b
      else if a = '''' \<or> suffix ''/'' a then a @ b
      else a @ ''/'' @ b)"

text \<open>
  \<^verbatim>\<open>str.rfind\<close> for one character: the index of its last occurrence, \<open>-1\<close> when there
  is none.
\<close>

fun rfind :: "string \<Rightarrow> char \<Rightarrow> int" where
  "rfind [] ch = - 1"
| "rfind (x # xs) ch =
     (let r = rfind xs ch in
      if 0 \<le> r then r + 1 else if x = ch then 0 else - 1)"

text \<open>
  \<^verbatim>\<open>os.path.splitext\<close>: the extension starts at the last dot of the path, when that dot
  comes after the last separator and some character between the two is not a dot.
  The loop is the one of the library:
  \<^verbatim>\<open>
  filenameIndex = sepIndex + 1
  while filenameIndex < dotIndex:
      if p[filenameIndex:filenameIndex+1] != extsep:
          return p[:dotIndex], p[dotIndex:]
      filenameIndex += 1
  return p, p[:0]
  \<close>
\<close>

function skip_leading_dots :: "string \<Rightarrow> int \<Rightarrow> int \<Rightarrow> string \<times> string" where
  "skip_leading_dots p filenameIndex dotIndex =
     (if filenameIndex < dotIndex then
        (if take 1 (drop (nat filenameIndex) p) \<noteq> ''.''
         then (take (nat dotIndex) p, drop (nat dotIndex) p)
         else skip_leading_dots p (filenameIndex + 1) dotIndex)
      else (p, ''''))"
  by pat_completeness auto
termination
  by (relation "measure (\<lambda>(p, filenameIndex, dotIndex). nat (dotIndex - filenameIndex))") auto

declare skip_leading_dots.simps [simp del]

definition splitext :: "string \<Rightarrow> string \<times> string" where
  "splitext p =
     (let sepIndex = rfind p CHR ''/'';
          dotIndex = rfind p CHR ''.''
      in if sepIndex < dotIndex then skip_leading_dots p (sepIndex + 1) dotIndex
         else (p, ''''))"

section \<open>The helpers of the toolshed\<close>


text \<open>
  The three decorators. Each wrapper reads the working directory when it is called and
  hands it to the decorated function: \<^verbatim>\<open>currentdir_to_basefile\<close> joins it with the
  first argument, \<^verbatim>\<open>currentdir_firstargument\<close> passes it in place of the first argument
  (the wrapper's own \<^verbatim>\<open>dir\<close>, by default the empty string, is dropped),
  \<^verbatim>\<open>currentdir_lastargument\<close> passes it as the keyword argument \<^verbatim>\<open>current_dir\<close> after
  the positional ones. The decorated functions of the module take no further arguments,
  so \<^verbatim>\<open>*args\<close> and \<^verbatim>\<open>**kwargs\<close> are empty in the first two wrappers, and the positional
  arguments of the third are the one argument \<^verbatim>\<open>extension_filter\<close>.
\<close>

definition currentdir_to_basefile ::
    "(os_env \<Rightarrow> string \<Rightarrow> 'a) \<Rightarrow> os_env \<Rightarrow> string \<Rightarrow> 'a" where
  "currentdir_to_basefile func env file_name =
     (let current_directory = getcwd env;
          full_path = path_join current_directory file_name
      in func env full_path)"

definition currentdir_firstargument ::
    "(os_env \<Rightarrow> string \<Rightarrow> 'a) \<Rightarrow> os_env \<Rightarrow> string \<Rightarrow> 'a" where
  "currentdir_firstargument func env dir =
     (let current_directory = getcwd env in func env current_directory)"

definition currentdir_lastargument ::
    "(os_env \<Rightarrow> 'b \<Rightarrow> string \<Rightarrow> 'a) \<Rightarrow> os_env \<Rightarrow> 'b \<Rightarrow> 'a" where
  "currentdir_lastargument func env args =
     (let the_cwd = getcwd env in func env args the_cwd)"

definition fullpath :: "os_env \<Rightarrow> string \<Rightarrow> string" where
  "fullpath = currentdir_to_basefile (\<lambda>env file_name. file_name)"

definition cwd :: "os_env \<Rightarrow> string \<Rightarrow> string" where
  "cwd = currentdir_firstargument (\<lambda>env dir. dir)"

definition file_exists :: "os_env \<Rightarrow> string \<Rightarrow> bool" where
  "file_exists env filepath = path_exists env filepath"

definition is_file :: "os_env \<Rightarrow> string \<Rightarrow> bool" where
  "is_file env filepath = path_isfile env filepath"

definition dir_exists :: "os_env \<Rightarrow> string \<Rightarrow> bool" where
  "dir_exists env dirpath = path_exists env dirpath"

definition is_dir :: "os_env \<Rightarrow> string \<Rightarrow> bool" where
  "is_dir env filepath = path_isdir env filepath"

text \<open>
  The listings. \<^verbatim>\<open>os.listdir\<close> raises when the directory cannot be read; the
  comprehension is then not evaluated and the exception leaves the helper.
\<close>

definition list_all_files :: "os_env \<Rightarrow> string \<Rightarrow> exn + string list" where
  "list_all_files env dir =
     (case listdir env dir of
        Inl e \<Rightarrow> Inl e
      | Inr names \<Rightarrow> Inr (filter (\<lambda>name. path_isfile env (path_join dir name)) names))"

definition list_filter_files :: "os_env \<Rightarrow> string \<Rightarrow> string \<Rightarrow> exn + string list" where
  "list_filter_files env extension_filter dir =
     (let extension_filter =
            (if \<not> prefix ''.'' extension_filter then ''.'' @ extension_filter
             else extension_filter)
      in case listdir env dir of
           Inl e \<Rightarrow> Inl e
         | Inr names \<Rightarrow> Inr (filter (\<lambda>name. suffix extension_filter name) names))"

definition list_all_files_cwd :: "os_env \<Rightarrow> string \<Rightarrow> exn + string list" where
  "list_all_files_cwd = currentdir_firstargument (\<lambda>env dir. list_all_files env dir)"

definition list_filter_files_cwd :: "os_env \<Rightarrow> string \<Rightarrow> exn + string list" where
  "list_filter_files_cwd =
     currentdir_lastargument
       (\<lambda>env extension_filter current_dir. list_filter_files env extension_filter current_dir)"

text \<open>
  \<^verbatim>\<open>stderr(text, exit=0)\<close>. The state is what has been written to the standard error
  stream so far; the result is the stream after the call and either the exception that
  leaves the function or its normal return.
\<close>

definition stderr :: "string \<Rightarrow> int \<Rightarrow> string \<Rightarrow> string \<times> (exn + unit)" where
  "stderr text exit err =
     (let err' = err @ text in
      if exit \<noteq> 0 then (err', Inl (SystemExit exit)) else (err', Inr ()))"

section \<open>Properties of the classifier\<close>

lemma Command_fields:
  "argv (Command a xs) = xs"
  "app (Command a xs) = a"
  "cmd (Command a xs) = fst (scan_commands xs)"
  "cmd2 (Command a xs) = snd (scan_commands xs)"
  by (simp_all add: Command_def)

text \<open>
  Claim C1. \<^verbatim>\<open>command_suite_validates()\<close> returns true if and only if the primary
  command is non-empty; for the empty argument vector it returns false, and the primary
  and the secondary command are both the empty string.
\<close>

theorem command_suite_validates_iff:
  "command_suite_validates c = (cmd c \<noteq> '''')
   \<and> command_suite_validates (Command prog args) = (cmd (Command prog args) \<noteq> '''')
   \<and> command_suite_validates (Command prog []) = False
   \<and> cmd (Command prog []) = ''''
   \<and> cmd2 (Command prog []) = ''''"
  by (simp add: command_suite_validates_def Command_fields)

subsection \<open>The first occurrence of a token\<close>

lemma first_index_None_iff: "first_index xs t = None \<longleftrightarrow> t \<notin> set xs"
  by (induction xs) (auto split: option.splits)

lemma first_index_append:
  "t \<notin> set pre \<Longrightarrow> first_index (pre @ t # post) t = Some (length pre)"
  by (induction pre) auto

lemma first_index_Some_decomp:
  "first_index xs t = Some i \<Longrightarrow>
   \<exists>pre post. xs = pre @ t # post \<and> t \<notin> set pre \<and> length pre = i"
proof (induction xs arbitrary: i)
  case Nil
  then show ?case by simp
next
  case (Cons x xs)
  show ?case
  proof (cases "x = t")
    case True
    with Cons.prems have "i = 0" by simp
    with True have "x # xs = [] @ t # xs \<and> t \<notin> set [] \<and> length ([]::string list) = i"
      by simp
    then show ?thesis by blast
  next
    case False
    with Cons.prems obtain j where j: "first_index xs t = Some j" "i = Suc j"
      by (auto split: option.splits)
    from Cons.IH [OF j(1)] obtain pre post where
      "xs = pre @ t # post" "t \<notin> set pre" "length pre = j" by blast
    with False j(2)
    have "x # xs = (x # pre) @ t # post \<and> t \<notin> set (x # pre) \<and> length (x # pre) = i"
      by simp
    then show ?thesis by blast
  qed
qed

lemma positionalArgument_Some_iff:
  "positionalArgument c t = Some v \<longleftrightarrow>
   (\<exists>pre post. argv c = pre @ t # v # post \<and> t \<notin> set pre)"
proof
  assume "positionalArgument c t = Some v"
  then obtain i where i: "first_index (argv c) t = Some i" "Suc i < length (argv c)"
      "argv c ! Suc i = v"
    by (auto simp: positionalArgument_def split: option.splits if_splits)
  from first_index_Some_decomp [OF i(1)] obtain pre post where
    d: "argv c = pre @ t # post" "t \<notin> set pre" "length pre = i" by blast
  with i(2) obtain w post' where "post = w # post'" by (cases post) auto
  with d i(3) have "argv c = pre @ t # v # post'" by (simp add: nth_append)
  with d(2) show "\<exists>pre post. argv c = pre @ t # v # post \<and> t \<notin> set pre" by blast
next
  assume "\<exists>pre post. argv c = pre @ t # v # post \<and> t \<notin> set pre"
  then obtain pre post where d: "argv c = pre @ t # v # post" "t \<notin> set pre" by blast
  then show "positionalArgument c t = Some v"
    by (simp add: positionalArgument_def first_index_append nth_append)
qed

lemma positionalArgument_None_iff:
  "positionalArgument c t = None \<longleftrightarrow>
   (t \<notin> set (argv c) \<or> (\<exists>pre. argv c = pre @ [t] \<and> t \<notin> set pre))"
proof
  assume n: "positionalArgument c t = None"
  show "t \<notin> set (argv c) \<or> (\<exists>pre. argv c = pre @ [t] \<and> t \<notin> set pre)"
  proof (cases "first_index (argv c) t")
    case None
    then show ?thesis by (simp add: first_index_None_iff)
  next
    case (Some i)
    from first_index_Some_decomp [OF Some] obtain pre post where
      d: "argv c = pre @ t # post" "t \<notin> set pre" "length pre = i" by blast
    from n Some have "\<not> Suc i < length (argv c)"
      by (auto simp: positionalArgument_def split: if_splits)
    with d have "post = []" by (cases post) auto
    with d show ?thesis by blast
  qed
next
  assume "t \<notin> set (argv c) \<or> (\<exists>pre. argv c = pre @ [t] \<and> t \<notin> set pre)"
  then show "positionalArgument c t = None"
  proof
    assume "t \<notin> set (argv c)"
    then have "first_index (argv c) t = None" by (simp add: first_index_None_iff)
    then show ?thesis by (simp add: positionalArgument_def)
  next
    assume "\<exists>pre. argv c = pre @ [t] \<and> t \<notin> set pre"
    then obtain pre where "argv c = pre @ [t]" "t \<notin> set pre" by blast
    then show ?thesis by (simp add: positionalArgument_def first_index_append)
  qed
qed

lemma hasOption_False_iff: "hasOption c flag False \<longleftrightarrow> flag \<in> set (argv c)"
  using first_index_None_iff [of "argv c" flag]
  by (auto simp: hasOption_def split: option.splits)

lemma hasOption_True_iff: "hasOption c flag True \<longleftrightarrow> positionalArgument c flag \<noteq> None"
  by (auto simp: hasOption_def positionalArgument_def split: option.splits)

text \<open>
  Claim C3. For every argument vector and flag, the option value query returns the
  element right after the first occurrence of the flag when the flag occurs and that
  occurrence is not the last element, and it returns the absent value \<open>None\<close>, not an
  error, when the flag does not occur or its first occurrence is the last element.
\<close>

theorem optionValue_first_occurrence:
  "(optionValue (Command prog args) flag = Some v
      \<longleftrightarrow> (\<exists>pre post. args = pre @ flag # v # post \<and> flag \<notin> set pre))
   \<and> (optionValue (Command prog args) flag = None
      \<longleftrightarrow> flag \<notin> set args \<or> (\<exists>pre. args = pre @ [flag] \<and> flag \<notin> set pre))
   \<and> (flag \<notin> set pre \<longrightarrow> optionValue (Command prog (pre @ flag # v # post)) flag = Some v)
   \<and> (flag \<notin> set pre \<longrightarrow> optionValue (Command prog (pre @ [flag])) flag = None)
   \<and> (flag \<notin> set args \<longrightarrow> optionValue (Command prog args) flag = None)"
proof -
  have some: "optionValue (Command prog xs) flag = Some w
      \<longleftrightarrow> (\<exists>pre post. xs = pre @ flag # w # post \<and> flag \<notin> set pre)" for xs w
    using positionalArgument_Some_iff [of "Command prog xs" flag w]
    by (simp add: optionValue_def Command_fields)
  have none: "optionValue (Command prog xs) flag = None
      \<longleftrightarrow> flag \<notin> set xs \<or> (\<exists>pre. xs = pre @ [flag] \<and> flag \<notin> set pre)" for xs
    using positionalArgument_None_iff [of "Command prog xs" flag]
    by (simp add: optionValue_def Command_fields)
  have c3: "flag \<notin> set pre \<longrightarrow>
      optionValue (Command prog (pre @ flag # v # post)) flag = Some v"
    using some [of "pre @ flag # v # post" v] by blast
  have c4: "flag \<notin> set pre \<longrightarrow> optionValue (Command prog (pre @ [flag])) flag = None"
    using none [of "pre @ [flag]"] by blast
  have c5: "flag \<notin> set args \<longrightarrow> optionValue (Command prog args) flag = None"
    using none [of args] by blast
  from some [of args v] none [of args] c3 c4 c5 show ?thesis by blast
qed

text \<open>
  The fourth scenario of the specification, a flag given twice, a flag in the last
  position and a flag that is not there.
\<close>

theorem optionValue_first_occurrence_witness:
  "optionValue (Command ''myapp'' [''convert'', ''--out'', ''result.txt'']) ''--out''
     = Some ''result.txt''
   \<and> optionValue (Command ''myapp'' [''convert'', ''-o'', ''a'', ''-o'', ''b'']) ''-o''
     = Some ''a''
   \<and> optionValue (Command ''myapp'' [''convert'', ''-o'']) ''-o'' = None
   \<and> optionValue (Command ''myapp'' [''convert'']) ''-o'' = None"
  using optionValue_first_occurrence
      [where prog = "''myapp''" and flag = "''--out''" and pre = "[''convert'']"
         and v = "''result.txt''" and post = "[]"]
    optionValue_first_occurrence
      [where prog = "''myapp''" and flag = "''-o''" and pre = "[''convert'']"
         and v = "''a''" and post = "[''-o'', ''b'']" and args = "[''convert'']"]
  by simp

text \<open>
  Claim C4. For every argument vector and flag, the option test without a required
  argument is true if and only if the flag is an element of the raw arguments, compared
  as a whole string (no case folding, no abbreviation); with a required argument it is
  true if and only if, moreover, the matched (first) occurrence has a following element,
  so it is false whenever that occurrence is the last element.
\<close>

theorem hasOption_exact_match:
  "(hasOption (Command prog args) flag False \<longleftrightarrow> flag \<in> set args)
   \<and> (hasOption (Command prog args) flag True
      \<longleftrightarrow> (\<exists>pre v post. args = pre @ flag # v # post \<and> flag \<notin> set pre))
   \<and> (flag \<notin> set pre \<longrightarrow> \<not> hasOption (Command prog (pre @ [flag])) flag True)
   \<and> (flag \<notin> set pre \<longrightarrow> hasOption (Command prog (pre @ flag # v # post)) flag True)
   \<and> (hasOption (Command prog args) flag True \<longrightarrow> hasOption (Command prog args) flag False)"
proof -
  have plain: "hasOption (Command prog xs) flag False \<longleftrightarrow> flag \<in> set xs" for xs
    by (simp add: hasOption_False_iff Command_fields)
  have arg: "hasOption (Command prog xs) flag True
      \<longleftrightarrow> (\<exists>pre w post. xs = pre @ flag # w # post \<and> flag \<notin> set pre)" for xs
  proof -
    have "hasOption (Command prog xs) flag True
        \<longleftrightarrow> (\<exists>w. positionalArgument (Command prog xs) flag = Some w)"
      by (simp add: hasOption_True_iff)
    also have "\<dots> \<longleftrightarrow> (\<exists>w pre post. xs = pre @ flag # w # post \<and> flag \<notin> set pre)"
      by (simp add: positionalArgument_Some_iff Command_fields)
    finally show ?thesis by blast
  qed
  have c3: "flag \<notin> set pre \<longrightarrow> \<not> hasOption (Command prog (pre @ [flag])) flag True"
    using positionalArgument_None_iff [of "Command prog (pre @ [flag])" flag]
    by (auto simp: hasOption_True_iff Command_fields)
  have c4: "flag \<notin> set pre \<longrightarrow> hasOption (Command prog (pre @ flag # v # post)) flag True"
    using arg [of "pre @ flag # v # post"] by blast
  have c5: "hasOption (Command prog args) flag True \<longrightarrow>
      hasOption (Command prog args) flag False"
    using arg [of args] plain [of args] by auto
  from plain [of args] arg [of args] c3 c4 c5 show ?thesis by blast
qed

text \<open>
  The first scenario of the specification, a flag in another case, an abbreviated
  flag, and a flag in the last position and before a value.
\<close>

theorem hasOption_exact_match_witness:
  "hasOption (Command ''myapp'' [''build'', ''release'', ''-v'']) ''-v'' False
   \<and> \<not> hasOption (Command ''myapp'' [''build'', ''-V'']) ''-v'' False
   \<and> \<not> hasOption (Command ''myapp'' [''build'', ''--verbose'']) ''--verb'' False
   \<and> \<not> hasOption (Command ''myapp'' [''build'', ''-o'']) ''-o'' True
   \<and> hasOption (Command ''myapp'' [''build'', ''-o'']) ''-o'' False
   \<and> hasOption (Command ''myapp'' [''build'', ''-o'', ''out.txt'']) ''-o'' True"
proof -
  note plain = hasOption_exact_match [THEN conjunct1]
  have a: "hasOption (Command ''myapp'' [''build'', ''release'', ''-v'']) ''-v'' False"
    by (simp add: plain)
  have b: "\<not> hasOption (Command ''myapp'' [''build'', ''-V'']) ''-v'' False"
    by (simp add: plain)
  have c: "\<not> hasOption (Command ''myapp'' [''build'', ''--verbose'']) ''--verb'' False"
    by (simp add: plain)
  have d: "\<not> hasOption (Command ''myapp'' [''build'', ''-o'']) ''-o'' True"
    using hasOption_exact_match
        [where flag = "''-o''" and pre = "[''build'']" and prog = "''myapp''",
         THEN conjunct2, THEN conjunct2, THEN conjunct1]
    by simp
  have e: "hasOption (Command ''myapp'' [''build'', ''-o'']) ''-o'' False"
    by (simp add: plain)
  have f: "hasOption (Command ''myapp'' [''build'', ''-o'', ''out.txt'']) ''-o'' True"
    using hasOption_exact_match
        [where flag = "''-o''" and pre = "[''build'']" and prog = "''myapp''"
           and v = "''out.txt''" and post = "[]",
         THEN conjunct2, THEN conjunct2, THEN conjunct2, THEN conjunct1]
    by simp
  from a b c d e f show ?thesis by blast
qed

section \<open>Properties of the dispatcher\<close>

lemma main_validation_failure:
  "\<not> command_suite_validates (Command prog args) \<Longrightarrow>
   main prog args = \<lparr>events = [PrintUsage], exit_status = 1\<rparr>"
  by (simp add: main_def)

lemma main_handler:
  assumes "command_suite_validates (Command prog args)"
    and "cmd (Command prog args) \<in> set recognized_commands"
  shows "\<exists>h. main prog args = \<lparr>events = [Handler h], exit_status = 0\<rparr>"
  using assms by (auto simp: main_def Let_def recognized_commands_def)

lemma main_after_commands:
  assumes "command_suite_validates (Command prog args)"
    and "cmd (Command prog args) \<notin> set recognized_commands"
  shows "main prog args =
     (if isHelpRequested (Command prog args)
        then \<lparr>events = [PrintHelp], exit_status = 0\<rparr>
      else if isUsageRequested (Command prog args)
        then \<lparr>events = [PrintUsage], exit_status = 0\<rparr>
      else if isVersionRequested (Command prog args)
        then \<lparr>events = [PrintVersion], exit_status = 0\<rparr>
      else \<lparr>events = [Print failure_message], exit_status = 1\<rparr>)"
  using assms by (simp add: main_def recognized_commands_def)

lemma main_cases:
  "(\<not> command_suite_validates (Command prog args)
      \<and> main prog args = \<lparr>events = [PrintUsage], exit_status = 1\<rparr>)
   \<or> (command_suite_validates (Command prog args)
      \<and> cmd (Command prog args) \<in> set recognized_commands
      \<and> (\<exists>h. main prog args = \<lparr>events = [Handler h], exit_status = 0\<rparr>))
   \<or> (command_suite_validates (Command prog args)
      \<and> cmd (Command prog args) \<notin> set recognized_commands
      \<and> main prog args =
         (if isHelpRequested (Command prog args)
            then \<lparr>events = [PrintHelp], exit_status = 0\<rparr>
          else if isUsageRequested (Command prog args)
            then \<lparr>events = [PrintUsage], exit_status = 0\<rparr>
          else if isVersionRequested (Command prog args)
            then \<lparr>events = [PrintVersion], exit_status = 0\<rparr>
          else \<lparr>events = [Print failure_message], exit_status = 1\<rparr>))"
  using main_validation_failure [of prog args] main_handler [of prog args]
    main_after_commands [of prog args]
  by blast

lemma help_printer_iff:
  "PrintHelp \<in> set (events (main prog args)) \<longleftrightarrow>
     command_suite_validates (Command prog args)
     \<and> cmd (Command prog args) \<notin> set recognized_commands
     \<and> isHelpRequested (Command prog args)"
  using main_cases [of prog args] by (auto split: if_splits)

lemma usage_printer_iff:
  "PrintUsage \<in> set (events (main prog args)) \<longleftrightarrow>
     \<not> command_suite_validates (Command prog args)
     \<or> (cmd (Command prog args) \<notin> set recognized_commands
        \<and> \<not> isHelpRequested (Command prog args)
        \<and> isUsageRequested (Command prog args))"
  using main_cases [of prog args] by (auto split: if_splits)

lemma version_printer_iff:
  "PrintVersion \<in> set (events (main prog args)) \<longleftrightarrow>
     command_suite_validates (Command prog args)
     \<and> cmd (Command prog args) \<notin> set recognized_commands
     \<and> \<not> isHelpRequested (Command prog args)
     \<and> \<not> isUsageRequested (Command prog args)
     \<and> isVersionRequested (Command prog args)"
  using main_cases [of prog args] by (auto split: if_splits)

lemmas classifier_defs =
  command_suite_validates_def isHelpRequested_def isUsageRequested_def
  isVersionRequested_def Command_fields is_option_token_def recognized_commands_def

text \<open>
  Claim C2, as amended. The classifier reports a help, usage or version request
  whenever \<^verbatim>\<open>-h\<close>/\<^verbatim>\<open>--help\<close>, \<^verbatim>\<open>--usage\<close> or \<^verbatim>\<open>--version\<close> occurs anywhere in the
  raw arguments, whatever the primary command is. The dispatcher answers a report only
  after the validation guard and the command handlers. It invokes the help printer
  exactly when the command suite validates, the primary command is none of \<^verbatim>\<open>test\<close>,
  \<^verbatim>\<open>dl\<close>, \<^verbatim>\<open>loc\<close>, \<^verbatim>\<open>yaml\<close>, \<^verbatim>\<open>bump\<close> and help is reported; the version printer
  exactly when the command suite validates, the primary command is none of the five,
  neither help nor usage is reported and version is; the usage printer exactly when the
  command suite does not validate, or the primary command is none of the five, help is
  not reported and usage is. A printer that is invoked after validation is the only
  step of the run, which ends with status 0.
\<close>

theorem universal_flags_after_commands:
  "(''-h'' \<in> set args \<or> ''--help'' \<in> set args \<longrightarrow> isHelpRequested (Command prog args))
   \<and> (''--usage'' \<in> set args \<longrightarrow> isUsageRequested (Command prog args))
   \<and> (''--version'' \<in> set args \<longrightarrow> isVersionRequested (Command prog args))
   \<and> (PrintHelp \<in> set (events (main prog args)) \<longleftrightarrow>
        command_suite_validates (Command prog args)
        \<and> cmd (Command prog args) \<notin> set recognized_commands
        \<and> isHelpRequested (Command prog args))
   \<and> (PrintUsage \<in> set (events (main prog args)) \<longleftrightarrow>
        \<not> command_suite_validates (Command prog args)
        \<or> (cmd (Command prog args) \<notin> set recognized_commands
           \<and> \<not> isHelpRequested (Command prog args)
           \<and> isUsageRequested (Command prog args)))
   \<and> (PrintVersion \<in> set (events (main prog args)) \<longleftrightarrow>
        command_suite_validates (Command prog args)
        \<and> cmd (Command prog args) \<notin> set recognized_commands
        \<and> \<not> isHelpRequested (Command prog args)
        \<and> \<not> isUsageRequested (Command prog args)
        \<and> isVersionRequested (Command prog args))
   \<and> (command_suite_validates (Command prog args)
        \<and> cmd (Command prog args) \<notin> set recognized_commands \<longrightarrow>
        (isHelpRequested (Command prog args) \<longrightarrow>
           main prog args = \<lparr>events = [PrintHelp], exit_status = 0\<rparr>)
        \<and> (\<not> isHelpRequested (Command prog args) \<and> isUsageRequested (Command prog args) \<longrightarrow>
           main prog args = \<lparr>events = [PrintUsage], exit_status = 0\<rparr>)
        \<and> (\<not> isHelpRequested (Command prog args) \<and> \<not> isUsageRequested (Command prog args)
             \<and> isVersionRequested (Command prog args) \<longrightarrow>
           main prog args = \<lparr>events = [PrintVersion], exit_status = 0\<rparr>))"
proof -
  have flags:
    "''-h'' \<in> set args \<or> ''--help'' \<in> set args \<longrightarrow> isHelpRequested (Command prog args)"
    "''--usage'' \<in> set args \<longrightarrow> isUsageRequested (Command prog args)"
    "''--version'' \<in> set args \<longrightarrow> isVersionRequested (Command prog args)"
    by (auto simp: isHelpRequested_def isUsageRequested_def isVersionRequested_def
        Command_fields)
  have printers:
    "command_suite_validates (Command prog args)
        \<and> cmd (Command prog args) \<notin> set recognized_commands \<longrightarrow>
        (isHelpRequested (Command prog args) \<longrightarrow>
           main prog args = \<lparr>events = [PrintHelp], exit_status = 0\<rparr>)
        \<and> (\<not> isHelpRequested (Command prog args) \<and> isUsageRequested (Command prog args) \<longrightarrow>
           main prog args = \<lparr>events = [PrintUsage], exit_status = 0\<rparr>)
        \<and> (\<not> isHelpRequested (Command prog args) \<and> \<not> isUsageRequested (Command prog args)
             \<and> isVersionRequested (Command prog args) \<longrightarrow>
           main prog args = \<lparr>events = [PrintVersion], exit_status = 0\<rparr>)"
    by (simp add: main_after_commands)
  from flags help_printer_iff [of prog args] usage_printer_iff [of prog args]
    version_printer_iff [of prog args] printers
  show ?thesis by blast
qed

text \<open>
  The claim as it was stated fails: with the arguments \<^verbatim>\<open>test --help\<close> the classifier
  reports a help request, and the dispatcher runs the handler of \<^verbatim>\<open>test\<close>, the first
  branch of its chain, and never the help printer.
\<close>

theorem universal_flags_counterexample:
  "isHelpRequested (Command ''naked'' [''test'', ''--help''])
   \<and> main ''naked'' [''test'', ''--help''] = \<lparr>events = [Handler Test], exit_status = 0\<rparr>
   \<and> PrintHelp \<notin> set (events (main ''naked'' [''test'', ''--help'']))"
  by (simp add: main_def classifier_defs)

text \<open>
  The three printers after a primary command that has no handler; the help printer
  withheld behind the handler of \<^verbatim>\<open>dl\<close>; the usage printer of the validation guard on
  a vector without a primary command.
\<close>

theorem universal_flags_after_commands_witness:
  "command_suite_validates (Command ''naked'' [''foo'', ''--help''])
   \<and> cmd (Command ''naked'' [''foo'', ''--help'']) \<notin> set recognized_commands
   \<and> isHelpRequested (Command ''naked'' [''foo'', ''--help''])
   \<and> main ''naked'' [''foo'', ''--help''] = \<lparr>events = [PrintHelp], exit_status = 0\<rparr>
   \<and> isUsageRequested (Command ''naked'' [''foo'', ''--usage''])
   \<and> main ''naked'' [''foo'', ''--usage''] = \<lparr>events = [PrintUsage], exit_status = 0\<rparr>
   \<and> isVersionRequested (Command ''naked'' [''foo'', ''--version''])
   \<and> main ''naked'' [''foo'', ''--version''] = \<lparr>events = [PrintVersion], exit_status = 0\<rparr>
   \<and> isHelpRequested (Command ''naked'' [''dl'', ''--help''])
   \<and> PrintHelp \<notin> set (events (main ''naked'' [''dl'', ''--help'']))
   \<and> \<not> command_suite_validates (Command ''naked'' [''--usage''])
   \<and> PrintUsage \<in> set (events (main ''naked'' [''--usage'']))"
proof -
  have a: "command_suite_validates (Command ''naked'' [''foo'', ''--help''])"
    "cmd (Command ''naked'' [''foo'', ''--help'']) \<notin> set recognized_commands"
    "isHelpRequested (Command ''naked'' [''foo'', ''--help''])"
    by (simp_all add: classifier_defs)
  have b: "command_suite_validates (Command ''naked'' [''foo'', ''--usage''])"
    "cmd (Command ''naked'' [''foo'', ''--usage'']) \<notin> set recognized_commands"
    "\<not> isHelpRequested (Command ''naked'' [''foo'', ''--usage''])"
    "isUsageRequested (Command ''naked'' [''foo'', ''--usage''])"
    by (simp_all add: classifier_defs)
  have c: "command_suite_validates (Command ''naked'' [''foo'', ''--version''])"
    "cmd (Command ''naked'' [''foo'', ''--version'']) \<notin> set recognized_commands"
    "\<not> isHelpRequested (Command ''naked'' [''foo'', ''--version''])"
    "\<not> isUsageRequested (Command ''naked'' [''foo'', ''--version''])"
    "isVersionRequested (Command ''naked'' [''foo'', ''--version''])"
    by (simp_all add: classifier_defs)
  have d: "isHelpRequested (Command ''naked'' [''dl'', ''--help''])"
    "cmd (Command ''naked'' [''dl'', ''--help'']) \<in> set recognized_commands"
    by (simp_all add: classifier_defs)
  have e: "\<not> command_suite_validates (Command ''naked'' [''--usage''])"
    by (simp add: classifier_defs)
  from a universal_flags_after_commands [where prog = "''naked''" and args = "[''foo'', ''--help'']"]
  have a': "main ''naked'' [''foo'', ''--help''] = \<lparr>events = [PrintHelp], exit_status = 0\<rparr>"
    by blast
  from b universal_flags_after_commands [where prog = "''naked''" and args = "[''foo'', ''--usage'']"]
  have b': "main ''naked'' [''foo'', ''--usage''] = \<lparr>events = [PrintUsage], exit_status = 0\<rparr>"
    by blast
  from c universal_flags_after_commands [where prog = "''naked''" and args = "[''foo'', ''--version'']"]
  have c': "main ''naked'' [''foo'', ''--version''] = \<lparr>events = [PrintVersion], exit_status = 0\<rparr>"
    by blast
  from d universal_flags_after_commands [where prog = "''naked''" and args = "[''dl'', ''--help'']"]
  have d': "PrintHelp \<notin> set (events (main ''naked'' [''dl'', ''--help'']))"
    by blast
  from e universal_flags_after_commands [where prog = "''naked''" and args = "[''--usage'']"]
  have e': "PrintUsage \<in> set (events (main ''naked'' [''--usage'']))"
    by blast
  from a b(4) c(5) d(1) e a' b' c' d' e' show ?thesis by blast
qed

text \<open>
  Two more runs behind the amendment: help goes before version when both are
  requested, and a vector of flags only has no primary command, so the validation guard
  answers it with the usage text and status 1.
\<close>

lemma universal_flags_precedence_example:
  "isVersionRequested (Command ''naked'' [''foo'', ''--help'', ''--version''])
   \<and> main ''naked'' [''foo'', ''--help'', ''--version'']
       = \<lparr>events = [PrintHelp], exit_status = 0\<rparr>"
  by (simp add: main_def classifier_defs)

lemma universal_flags_validation_example:
  "isVersionRequested (Command ''naked'' [''--version''])
   \<and> main ''naked'' [''--version''] = \<lparr>events = [PrintUsage], exit_status = 1\<rparr>"
  by (simp add: main_def classifier_defs)

text \<open>
  Claim C5. For every argument vector on which the command suite does not validate, the
  dispatcher prints the usage text and terminates with exit status 1, and it reaches no
  command handler.
\<close>

theorem validation_failure_usage_exit_1:
  "\<not> command_suite_validates (Command prog args) \<Longrightarrow>
     events (main prog args) = [PrintUsage]
     \<and> exit_status (main prog args) = 1
     \<and> filter is_handler_event (events (main prog args)) = []"
  by (simp add: main_validation_failure is_handler_event_def)

theorem validation_failure_usage_exit_1_witness:
  "\<not> command_suite_validates (Command ''naked'' [])
   \<and> events (main ''naked'' []) = [PrintUsage]
   \<and> exit_status (main ''naked'' []) = 1
   \<and> filter is_handler_event (events (main ''naked'' [])) = []"
proof -
  have h: "\<not> command_suite_validates (Command ''naked'' [])"
    by (simp add: command_suite_validates_def Command_fields)
  from validation_failure_usage_exit_1 [OF h] h show ?thesis by blast
qed

text \<open>
  Claim C6. For every argument vector whose primary command matches none of the
  dispatcher's command strings and which requests neither help nor usage nor version,
  the dispatcher exits with status 1; the vector having a primary command (one without
  is the absent command of claim C5, which the validation guard answers), the run falls
  through every comparison to the default branch, whose only step is to print the fixed
  failure message.
\<close>

theorem unrecognized_command_default_branch:
  "cmd (Command prog args) \<notin> set recognized_commands \<Longrightarrow>
   \<not> isHelpRequested (Command prog args) \<Longrightarrow>
   \<not> isUsageRequested (Command prog args) \<Longrightarrow>
   \<not> isVersionRequested (Command prog args) \<Longrightarrow>
   exit_status (main prog args) = 1
   \<and> (cmd (Command prog args) \<noteq> '''' \<longrightarrow>
        main prog args = \<lparr>events = [Print failure_message], exit_status = 1\<rparr>)
   \<and> (command_suite_validates (Command prog args) \<longrightarrow>
        main prog args = \<lparr>events = [Print failure_message], exit_status = 1\<rparr>)"
proof -
  assume h: "cmd (Command prog args) \<notin> set recognized_commands"
    "\<not> isHelpRequested (Command prog args)"
    "\<not> isUsageRequested (Command prog args)"
    "\<not> isVersionRequested (Command prog args)"
  have v: "main prog args = \<lparr>events = [Print failure_message], exit_status = 1\<rparr>"
    if "command_suite_validates (Command prog args)"
    using that h by (simp add: main_after_commands)
  have status: "exit_status (main prog args) = 1"
  proof (cases "command_suite_validates (Command prog args)")
    case True
    then show ?thesis by (simp add: v)
  next
    case False
    then show ?thesis by (simp add: main_validation_failure)
  qed
  from v status show ?thesis by (simp add: command_suite_validates_def)
qed

theorem unrecognized_command_default_branch_witness:
  "cmd (Command ''naked'' [''foo'']) \<noteq> ''''
   \<and> cmd (Command ''naked'' [''foo'']) \<notin> set recognized_commands
   \<and> \<not> isHelpRequested (Command ''naked'' [''foo''])
   \<and> \<not> isUsageRequested (Command ''naked'' [''foo''])
   \<and> \<not> isVersionRequested (Command ''naked'' [''foo''])
   \<and> main ''naked'' [''foo''] = \<lparr>events = [Print failure_message], exit_status = 1\<rparr>
   \<and> exit_status (main ''naked'' [''foo'', ''bar'']) = 1"
proof -
  have h: "cmd (Command ''naked'' [''foo'']) \<notin> set recognized_commands"
    "\<not> isHelpRequested (Command ''naked'' [''foo''])"
    "\<not> isUsageRequested (Command ''naked'' [''foo''])"
    "\<not> isVersionRequested (Command ''naked'' [''foo''])"
    by (simp_all add: classifier_defs)
  have n: "cmd (Command ''naked'' [''foo'']) \<noteq> ''''"
    by (simp add: classifier_defs)
  have h2: "cmd (Command ''naked'' [''foo'', ''bar'']) \<notin> set recognized_commands"
    "\<not> isHelpRequested (Command ''naked'' [''foo'', ''bar''])"
    "\<not> isUsageRequested (Command ''naked'' [''foo'', ''bar''])"
    "\<not> isVersionRequested (Command ''naked'' [''foo'', ''bar''])"
    by (simp_all add: classifier_defs)
  from unrecognized_command_default_branch [OF h] unrecognized_command_default_branch [OF h2]
    h n show ?thesis by blast
qed

section \<open>Properties of the helpers of the toolshed\<close>

subsection \<open>Splitting a path at its extension\<close>











lemma splitext_examples:
  "splitext ''a/.bashrc'' = (''a/.bashrc'', '''')"
  "splitext ''a.b/c'' = (''a.b/c'', '''')"
  "splitext ''...txt'' = (''...txt'', '''')"
  "splitext ''a/..b.c'' = (''a/..b'', ''.c'')"
  "splitext '''' = ('''', '''')"
  by code_simp+

subsection \<open>The wrappers of the working directory\<close>

text \<open>
  Claim C7. The wrappers made by the three decorators are the helpers with an explicit
  directory, applied to the working directory: \<^verbatim>\<open>list_all_files_cwd()\<close> is
  \<^verbatim>\<open>list_all_files(cwd)\<close>, \<^verbatim>\<open>list_filter_files_cwd(ext)\<close> is
  \<^verbatim>\<open>list_filter_files(ext, cwd)\<close>, \<^verbatim>\<open>cwd()\<close> is the working directory and
  \<^verbatim>\<open>fullpath(name)\<close> is the working directory joined with the name, for every working
  directory and every content of the file system; a directory passed to
  \<^verbatim>\<open>list_all_files_cwd\<close> or \<^verbatim>\<open>cwd\<close> is ignored.
\<close>

theorem cwd_wrappers_supply_working_directory:
  "list_all_files_cwd env dir = list_all_files env (getcwd env)
   \<and> list_filter_files_cwd env extension_filter
       = list_filter_files env extension_filter (getcwd env)
   \<and> cwd env dir = getcwd env
   \<and> fullpath env file_name = path_join (getcwd env) file_name"
  by (simp add: list_all_files_cwd_def list_filter_files_cwd_def cwd_def fullpath_def
      currentdir_firstargument_def currentdir_lastargument_def currentdir_to_basefile_def)

text \<open>
  A working directory \<^verbatim>\<open>/w\<close> that holds the regular file \<^verbatim>\<open>a.py\<close> and the
  directory \<^verbatim>\<open>d\<close>.
\<close>

theorem cwd_wrappers_supply_working_directory_witness:
  "list_all_files_cwd
     \<lparr>getcwd = ''/w'',
      os_stat = (\<lambda>p. if p = ''/w/a.py'' then Some Regular
                      else if p = ''/w/d'' \<or> p = ''/w'' then Some Directory else None),
      listdir = (\<lambda>p. if p = ''/w'' then Inr [''a.py'', ''d''] else Inl OSError)\<rparr> ''''
     = Inr [''a.py'']
   \<and> list_filter_files_cwd
     \<lparr>getcwd = ''/w'',
      os_stat = (\<lambda>p. if p = ''/w/a.py'' then Some Regular
                      else if p = ''/w/d'' \<or> p = ''/w'' then Some Directory else None),
      listdir = (\<lambda>p. if p = ''/w'' then Inr [''a.py'', ''d''] else Inl OSError)\<rparr> ''py''
     = Inr [''a.py'']
   \<and> fullpath
     \<lparr>getcwd = ''/w'',
      os_stat = (\<lambda>p. if p = ''/w/a.py'' then Some Regular
                      else if p = ''/w/d'' \<or> p = ''/w'' then Some Directory else None),
      listdir = (\<lambda>p. if p = ''/w'' then Inr [''a.py'', ''d''] else Inl OSError)\<rparr> ''a.py''
     = ''/w/a.py''"
  using cwd_wrappers_supply_working_directory
      [where env = "\<lparr>getcwd = ''/w'',
      os_stat = (\<lambda>p. if p = ''/w/a.py'' then Some Regular
                      else if p = ''/w/d'' \<or> p = ''/w'' then Some Directory else None),
      listdir = (\<lambda>p. if p = ''/w'' then Inr [''a.py'', ''d''] else Inl OSError)\<rparr>"
        and dir = "''''" and extension_filter = "''py''" and file_name = "''a.py''"]
  by (simp add: list_all_files_def list_filter_files_def path_isfile_def path_join_def
      suffix_def prefix_def)

subsection \<open>Existence tests\<close>

text \<open>
  Claim C9. For every path, \<^verbatim>\<open>dir_exists\<close> is true exactly when the path exists at all:
  it equals \<^verbatim>\<open>file_exists\<close> and is true also when the path is a regular file and not a
  directory; \<^verbatim>\<open>is_dir\<close> is the test of being a directory.
\<close>

theorem dir_exists_is_path_exists:
  "dir_exists env path = file_exists env path
   \<and> dir_exists env path = (os_stat env path \<noteq> None)
   \<and> (is_file env path \<longrightarrow> dir_exists env path \<and> \<not> is_dir env path)
   \<and> is_dir env path = (os_stat env path = Some Directory)
   \<and> (is_dir env path \<longrightarrow> dir_exists env path)"
  by (auto simp: dir_exists_def file_exists_def is_file_def is_dir_def path_exists_def
      path_isfile_def path_isdir_def split: option.splits)

text \<open>A file system whose only entry is the regular file \<^verbatim>\<open>/tmp/a.txt\<close>.\<close>

theorem dir_exists_is_path_exists_witness:
  "is_file \<lparr>getcwd = ''/tmp'',
            os_stat = (\<lambda>p. if p = ''/tmp/a.txt'' then Some Regular else None),
            listdir = (\<lambda>p. Inl OSError)\<rparr> ''/tmp/a.txt''
   \<and> dir_exists \<lparr>getcwd = ''/tmp'',
            os_stat = (\<lambda>p. if p = ''/tmp/a.txt'' then Some Regular else None),
            listdir = (\<lambda>p. Inl OSError)\<rparr> ''/tmp/a.txt''
   \<and> \<not> is_dir \<lparr>getcwd = ''/tmp'',
            os_stat = (\<lambda>p. if p = ''/tmp/a.txt'' then Some Regular else None),
            listdir = (\<lambda>p. Inl OSError)\<rparr> ''/tmp/a.txt''"
proof -
  let ?env = "\<lparr>getcwd = ''/tmp'',
            os_stat = (\<lambda>p. if p = ''/tmp/a.txt'' then Some Regular else None),
            listdir = (\<lambda>p. Inl OSError)\<rparr>"
  have h: "is_file ?env ''/tmp/a.txt''"
    by (simp add: is_file_def path_isfile_def)
  from dir_exists_is_path_exists [of ?env "''/tmp/a.txt''"] h show ?thesis by blast
qed

subsection \<open>The standard error stream\<close>

text \<open>
  Claim C10. For every text and exit code, \<^verbatim>\<open>stderr(text, exit)\<close> writes the text to the
  standard error stream and then raises \<^verbatim>\<open>SystemExit\<close> with that code if and only if
  the code is not zero; with the default code 0 it returns normally after the write.
\<close>

theorem stderr_writes_then_exits:
  "fst (stderr text exit err) = err @ text
   \<and> ((\<exists>e. snd (stderr text exit err) = Inl e) \<longleftrightarrow> exit \<noteq> 0)
   \<and> (exit \<noteq> 0 \<longrightarrow> snd (stderr text exit err) = Inl (SystemExit exit))
   \<and> stderr text 0 err = (err @ text, Inr ())"
  by (simp add: stderr_def Let_def)

theorem stderr_writes_then_exits_witness:
  "stderr ''oops'' 2 ''log: '' = (''log: oops'', Inl (SystemExit 2))
   \<and> stderr ''oops'' 0 ''log: '' = (''log: oops'', Inr ())"
  using stderr_writes_then_exits [of "''oops''" 2 "''log: ''"]
    stderr_writes_then_exits [of "''oops''" 0 "''log: ''"]
  by (simp add: prod_eq_iff)

end
